theory Spec2Isabelle
  imports Main
begin

section \<open>gRPC interceptor chaining and size tagging (hotelReservation/tracing)\<close>

subsection \<open>Data model\<close>

text \<open>
  A Go \<^verbatim>\<open>interface{}\<close> payload (request, response, reply slot) is observed by the
  interceptors only through the type assertion \<^verbatim>\<open>x.(proto.Message)\<close>: it is the nil
  interface, a value whose dynamic type implements \<^verbatim>\<open>proto.Message\<close>, or a value of
  some other type. A message is named by its identity (the pointer).
\<close>

type_synonym msg = nat
type_synonym span = nat
type_synonym gerror = string

datatype payload = NilValue | ProtoMessage msg | NotProto nat

text \<open>The value of a span tag: \<^verbatim>\<open>SetTag(key string, value interface{})\<close> is called
  with a Go \<^verbatim>\<open>int\<close> or with a string.\<close>

datatype tagval = TInt int | TStr string

datatype level = Info | Warn

datatype arg = AStr string | AInt int

text \<open>What the interceptors do to the outside world, in the order they do it: a tag set
  on a span, and a log line (zerolog's \<^verbatim>\<open>Msgf\<close>: level, format string, arguments).\<close>

datatype event = TagSet span string tagval | Logged level string "arg list"

text \<open>
  The world a call runs in. \<open>events\<close> records the tag writes and log lines so far;
  \<open>msg_size\<close> is what \<^verbatim>\<open>proto.Size\<close> computes for each message in the current store
  (a handler or invoker may change it, for instance by filling the reply slot). The
  record is extensible: handlers and interceptors may keep any further state.
\<close>

record world =
  events :: "event list"
  msg_size :: "msg \<Rightarrow> int"

text \<open>\<^verbatim>\<open>context.Context\<close>: the active span it carries (if any), and everything else.\<close>

record Context =
  active_span :: "span option"
  ctx_rest :: nat

text \<open>\<^verbatim>\<open>grpc.UnaryServerInfo\<close>; the interceptors receive a pointer to it, which is
  \<open>None\<close> when nil.\<close>

record UnaryServerInfo =
  Server :: nat
  FullMethod :: string

type_synonym ClientConn = nat
type_synonym CallOption = nat

text \<open>A Go call either returns a value or panics; both leave a world behind.\<close>

datatype 'a result = Panic | Return 'a

type_synonym ('w, 'a) comp = "'w \<Rightarrow> 'a result \<times> 'w"

type_synonym 'w UnaryHandler =
  "Context \<Rightarrow> payload \<Rightarrow> ('w, payload \<times> gerror option) comp"

type_synonym 'w UnaryServerInterceptor =
  "Context \<Rightarrow> payload \<Rightarrow> UnaryServerInfo option \<Rightarrow> 'w UnaryHandler
     \<Rightarrow> ('w, payload \<times> gerror option) comp"

type_synonym 'w UnaryInvoker =
  "Context \<Rightarrow> string \<Rightarrow> payload \<Rightarrow> payload \<Rightarrow> ClientConn option \<Rightarrow> CallOption list
     \<Rightarrow> ('w, gerror option) comp"

type_synonym 'w UnaryClientInterceptor =
  "Context \<Rightarrow> string \<Rightarrow> payload \<Rightarrow> payload \<Rightarrow> ClientConn option \<Rightarrow> 'w UnaryInvoker
     \<Rightarrow> CallOption list \<Rightarrow> ('w, gerror option) comp"

subsection \<open>Sequencing and the external operations\<close>

definition ret :: "'a \<Rightarrow> ('w, 'a) comp" where
  "ret x = (\<lambda>w. (Return x, w))"

text \<open>Statement sequencing: a panic in the first statement unwinds past the second.\<close>

definition andThen :: "('w, 'a) comp \<Rightarrow> ('a \<Rightarrow> ('w, 'b) comp) \<Rightarrow> ('w, 'b) comp" where
  "andThen m f = (\<lambda>w. case m w of (Panic, w') \<Rightarrow> (Panic, w') | (Return x, w') \<Rightarrow> f x w')"

text \<open>Reading a field through a pointer panics on nil.\<close>

definition deref :: "'a option \<Rightarrow> ('w, 'a) comp" where
  "deref p = (\<lambda>w. case p of None \<Rightarrow> (Panic, w) | Some x \<Rightarrow> (Return x, w))"

definition SpanFromContext :: "Context \<Rightarrow> span option" where
  "SpanFromContext ctx = active_span ctx"

definition SetTag :: "span \<Rightarrow> string \<Rightarrow> tagval \<Rightarrow> ('a world_scheme, unit) comp" where
  "SetTag sp key v = (\<lambda>w. (Return (), w\<lparr>events := events w @ [TagSet sp key v]\<rparr>))"

definition Msgf :: "level \<Rightarrow> string \<Rightarrow> arg list \<Rightarrow> ('a world_scheme, unit) comp" where
  "Msgf lvl fmt args = (\<lambda>w. (Return (), w\<lparr>events := events w @ [Logged lvl fmt args]\<rparr>))"

definition proto_Size :: "msg \<Rightarrow> ('a world_scheme, int) comp" where
  "proto_Size m = (\<lambda>w. (Return (msg_size w m), w))"

subsection \<open>ChainUnaryServerInterceptors\<close>

text \<open>
  The loop \<^verbatim>\<open>for i := len(interceptors) - 1; i >= 0; i--\<close>, with \<open>chainedHandler\<close> as
  the accumulator. Each iteration reads \<^verbatim>\<open>interceptors[i]\<close> and the current
  \<open>chainedHandler\<close> into variables of its own, which the new closure captures together
  with \<open>info\<close>.
\<close>

function server_loop ::
  "int \<Rightarrow> 'w UnaryServerInterceptor list \<Rightarrow> UnaryServerInfo option \<Rightarrow> 'w UnaryHandler
     \<Rightarrow> 'w UnaryHandler" where
  "server_loop i interceptors info chainedHandler =
     (if i \<ge> 0 then
        (let interceptor = interceptors ! nat i;
             next = chainedHandler
         in server_loop (i - 1) interceptors info
              (\<lambda>ctx req. interceptor ctx req info next))
      else chainedHandler)"
  by pat_completeness auto
termination
  by (relation "measure (\<lambda>(i, _, _, _). nat (i + 1))") auto

definition ChainUnaryServerInterceptors ::
  "'w UnaryServerInterceptor list \<Rightarrow> 'w UnaryServerInterceptor" where
  "ChainUnaryServerInterceptors interceptors =
     (\<lambda>ctx req info handler.
        (server_loop (int (length interceptors) - 1) interceptors info handler) ctx req)"

subsection \<open>SizeTaggingUnaryServerInterceptor\<close>

definition SizeTaggingUnaryServerInterceptor :: "'a world_scheme UnaryServerInterceptor" where
  "SizeTaggingUnaryServerInterceptor ctx req info handler =
     (let span = SpanFromContext ctx in
      andThen
        (case span of
           None \<Rightarrow> ret ()
         | Some sp \<Rightarrow>
             (case req of
                ProtoMessage reqProto \<Rightarrow>
                  andThen (proto_Size reqProto) (\<lambda>reqSize.
                  andThen (SetTag sp ''grpc.request.size'' (TInt reqSize)) (\<lambda>_.
                  andThen (deref info) (\<lambda>i.
                  Msgf Info ''Request size for %s: %d bytes''
                    [AStr (FullMethod i), AInt reqSize])))
              | _ \<Rightarrow>
                  andThen (deref info) (\<lambda>i.
                  andThen (Msgf Warn ''Request for method %s is not a proto.Message''
                    [AStr (FullMethod i)]) (\<lambda>_.
                  SetTag sp ''grpc.request.size'' (TInt (- 1))))))
        (\<lambda>_.
      andThen (handler ctx req) (\<lambda>(resp, err).
      andThen
        (case span of
           None \<Rightarrow> ret ()
         | Some sp \<Rightarrow>
             (case err of
                Some _ \<Rightarrow> ret ()
              | None \<Rightarrow>
                  (case resp of
                     ProtoMessage respProto \<Rightarrow>
                       andThen (proto_Size respProto) (\<lambda>respSize.
                       andThen (SetTag sp ''grpc.response.size'' (TInt respSize)) (\<lambda>_.
                       andThen (deref info) (\<lambda>i.
                       Msgf Info ''Response size for %s: %d bytes''
                         [AStr (FullMethod i), AInt respSize])))
                   | _ \<Rightarrow>
                       andThen (deref info) (\<lambda>i.
                       andThen (Msgf Warn ''Response for method %s is not a proto.Message''
                         [AStr (FullMethod i)]) (\<lambda>_.
                       SetTag sp ''grpc.response.size'' (TInt (- 1)))))))
        (\<lambda>_. ret (resp, err)))))"

subsection \<open>ChainUnaryClientInterceptors\<close>

text \<open>
  The same loop over client interceptors. Here the closure takes the method, the
  connection and the call options as parameters of its own and hands those on.
\<close>

function client_loop ::
  "int \<Rightarrow> 'w UnaryClientInterceptor list \<Rightarrow> 'w UnaryInvoker \<Rightarrow> 'w UnaryInvoker" where
  "client_loop i interceptors chainedInvoker =
     (if i \<ge> 0 then
        (let interceptor = interceptors ! nat i;
             next = chainedInvoker
         in client_loop (i - 1) interceptors
              (\<lambda>ctx method req reply cc opts. interceptor ctx method req reply cc next opts))
      else chainedInvoker)"
  by pat_completeness auto
termination
  by (relation "measure (\<lambda>(i, _, _). nat (i + 1))") auto

definition ChainUnaryClientInterceptors ::
  "'w UnaryClientInterceptor list \<Rightarrow> 'w UnaryClientInterceptor" where
  "ChainUnaryClientInterceptors interceptors =
     (\<lambda>ctx method req reply cc invoker opts.
        (client_loop (int (length interceptors) - 1) interceptors invoker)
          ctx method req reply cc opts)"

subsection \<open>SizeTaggingUnaryClientInterceptor\<close>

definition SizeTaggingUnaryClientInterceptor :: "'a world_scheme UnaryClientInterceptor" where
  "SizeTaggingUnaryClientInterceptor ctx method req reply cc invoker opts =
     (let span = SpanFromContext ctx in
      andThen
        (case span of
           None \<Rightarrow> ret ()
         | Some sp \<Rightarrow>
             (case req of
                ProtoMessage reqProto \<Rightarrow>
                  andThen (proto_Size reqProto) (\<lambda>reqSize.
                  andThen (SetTag sp ''grpc.request.size'' (TInt reqSize)) (\<lambda>_.
                  Msgf Info ''Request size for %s: %d bytes'' [AStr method, AInt reqSize]))
              | _ \<Rightarrow>
                  andThen (Msgf Warn ''Request for method %s is not a proto.Message''
                    [AStr method]) (\<lambda>_.
                  SetTag sp ''grpc.request.size'' (TStr ''unknown''))))
        (\<lambda>_.
      andThen (invoker ctx method req reply cc opts) (\<lambda>err.
      andThen
        (case span of
           None \<Rightarrow> ret ()
         | Some sp \<Rightarrow>
             (case err of
                Some _ \<Rightarrow> ret ()
              | None \<Rightarrow>
                  (case reply of
                     ProtoMessage replyProto \<Rightarrow>
                       andThen (proto_Size replyProto) (\<lambda>respSize.
                       andThen (SetTag sp ''grpc.response.size'' (TInt respSize)) (\<lambda>_.
                       Msgf Info ''Response size for %s: %d bytes''
                         [AStr method, AInt respSize]))
                   | _ \<Rightarrow>
                       andThen (Msgf Warn ''Response for method %s is not a proto.Message''
                         [AStr method]) (\<lambda>_.
                       SetTag sp ''grpc.response.size'' (TStr ''unknown'')))))
        (\<lambda>_. ret err))))"

section \<open>Auxiliary notions for stating the properties\<close>

text \<open>The outcome \<open>ok\<close> of the type assertion \<^verbatim>\<open>x.(proto.Message)\<close>.\<close>

fun is_proto :: "payload \<Rightarrow> bool" where
  "is_proto (ProtoMessage m) = True"
| "is_proto NilValue = False"
| "is_proto (NotProto n) = False"

text \<open>An interceptor seen only at one fixed call metadata: whatever metadata it is
  handed, it behaves as the original does at \<open>info\<close> (resp. at the method, connection
  and options given).\<close>

definition with_info ::
  "UnaryServerInfo option \<Rightarrow> 'w UnaryServerInterceptor \<Rightarrow> 'w UnaryServerInterceptor" where
  "with_info info x = (\<lambda>ctx req _ handler. x ctx req info handler)"

definition with_call ::
  "string \<Rightarrow> ClientConn option \<Rightarrow> CallOption list \<Rightarrow> 'w UnaryClientInterceptor
     \<Rightarrow> 'w UnaryClientInterceptor" where
  "with_call method cc opts x =
     (\<lambda>ctx _ req reply _ invoker _. x ctx method req reply cc invoker opts)"

definition invoker_at ::
  "string \<Rightarrow> ClientConn option \<Rightarrow> CallOption list \<Rightarrow> 'w UnaryInvoker \<Rightarrow> 'w UnaryInvoker" where
  "invoker_at method cc opts invoker =
     (\<lambda>ctx _ req reply _ _. invoker ctx method req reply cc opts)"

text \<open>A client interceptor hands on the method, connection and options it was given:
  it uses its continuation only at those.\<close>

definition forwards_call :: "'w UnaryClientInterceptor \<Rightarrow> bool" where
  "forwards_call x =
     (\<forall>ctx method req reply cc invoker opts.
        x ctx method req reply cc invoker opts =
        x ctx method req reply cc (invoker_at method cc opts invoker) opts)"

subsection \<open>Example interceptors, handlers and inputs\<close>

text \<open>An interceptor that calls its continuation with a changed context and request.\<close>

definition rewrite_server ::
  "(Context \<Rightarrow> Context) \<Rightarrow> (payload \<Rightarrow> payload) \<Rightarrow> 'w UnaryServerInterceptor" where
  "rewrite_server f g = (\<lambda>ctx req info handler. handler (f ctx) (g req))"

definition rewrite_client ::
  "(Context \<Rightarrow> Context) \<Rightarrow> (payload \<Rightarrow> payload) \<Rightarrow> 'w UnaryClientInterceptor" where
  "rewrite_client f g =
     (\<lambda>ctx method req reply cc invoker opts. invoker (f ctx) method (g req) reply cc opts)"

text \<open>Interceptors that return without calling their continuation.\<close>

definition deny_server :: "'w UnaryServerInterceptor" where
  "deny_server = (\<lambda>ctx req info handler. ret (NilValue, Some ''denied''))"

definition deny_client :: "'w UnaryClientInterceptor" where
  "deny_client = (\<lambda>ctx method req reply cc invoker opts. ret (Some ''denied''))"

text \<open>A client interceptor that invokes its continuation under another method name,
  and one that reports the method name it was called with as its error.\<close>

definition retarget_client :: "'w UnaryClientInterceptor" where
  "retarget_client =
     (\<lambda>ctx method req reply cc invoker opts.
        invoker ctx ''/other.Service/Call'' req reply cc opts)"

definition report_method_client :: "'w UnaryClientInterceptor" where
  "report_method_client = (\<lambda>ctx method req reply cc invoker opts. ret (Some method))"

definition pass_client :: "'w UnaryClientInterceptor" where
  "pass_client = (\<lambda>ctx method req reply cc invoker opts. invoker ctx method req reply cc opts)"




definition reply_handler :: "payload \<Rightarrow> gerror option \<Rightarrow> 'w UnaryHandler" where
  "reply_handler resp err = (\<lambda>ctx req. ret (resp, err))"

definition reply_invoker :: "gerror option \<Rightarrow> 'w UnaryInvoker" where
  "reply_invoker err = (\<lambda>ctx method req reply cc opts. ret err)"

definition ctx_traced :: Context where
  "ctx_traced = \<lparr>active_span = Some 5, ctx_rest = 0\<rparr>"

definition ctx_untraced :: Context where
  "ctx_untraced = \<lparr>active_span = None, ctx_rest = 0\<rparr>"

definition nearby_info :: UnaryServerInfo where
  "nearby_info = \<lparr>Server = 0, FullMethod = ''/search.Search/Nearby''\<rparr>"

definition sizes0 :: "msg \<Rightarrow> int" where
  "sizes0 m = (if m = 1 then 42 else 17)"

definition world0 :: world where
  "world0 = \<lparr>events = [], msg_size = sizes0\<rparr>"

text \<open>An interceptor that logs its name before and after calling its continuation, and
  a handler that logs its own call.\<close>

definition note_server :: "string \<Rightarrow> 'a world_scheme UnaryServerInterceptor" where
  "note_server name =
     (\<lambda>ctx req info handler.
        andThen (Msgf Info ''before'' [AStr name]) (\<lambda>_.
        andThen (handler ctx req) (\<lambda>(resp, err).
        andThen (Msgf Info ''after'' [AStr name]) (\<lambda>_.
        ret (resp, err)))))"

definition noting_handler :: "'a world_scheme UnaryHandler" where
  "noting_handler =
     (\<lambda>ctx req. andThen (Msgf Info ''handler'' []) (\<lambda>_. ret (req, None)))"

section \<open>The chain builder as a fold\<close>

declare server_loop.simps [simp del]
declare client_loop.simps [simp del]

lemma server_loop_take:
  "n \<le> length ics \<Longrightarrow>
   server_loop (int n - 1) ics info h =
     foldr (\<lambda>x nxt. (\<lambda>c r. x c r info nxt)) (take n ics) h"
proof (induction n arbitrary: h)
  case 0
  show ?case by (subst server_loop.simps) simp
next
  case (Suc n)
  from Suc.prems have n: "n < length ics" by simp
  have "server_loop (int (Suc n) - 1) ics info h =
        server_loop (int n - 1) ics info (\<lambda>c r. (ics ! n) c r info h)"
    by (subst server_loop.simps) simp
  also have "\<dots> = foldr (\<lambda>x nxt. (\<lambda>c r. x c r info nxt)) (take n ics)
                    (\<lambda>c r. (ics ! n) c r info h)"
    using n by (simp add: Suc.IH)
  also have "\<dots> = foldr (\<lambda>x nxt. (\<lambda>c r. x c r info nxt)) (take (Suc n) ics) h"
    using n by (simp add: take_Suc_conv_app_nth)
  finally show ?case .
qed

lemma chain_server_foldr:
  "ChainUnaryServerInterceptors ics ctx req info h =
     foldr (\<lambda>x nxt. (\<lambda>c r. x c r info nxt)) ics h ctx req"
  by (simp add: ChainUnaryServerInterceptors_def server_loop_take)

lemma chain_server_Nil: "ChainUnaryServerInterceptors [] ctx req info h = h ctx req"
  by (simp add: chain_server_foldr)

lemma chain_server_Cons:
  "ChainUnaryServerInterceptors (x # xs) ctx req info h =
     x ctx req info (\<lambda>c r. ChainUnaryServerInterceptors xs c r info h)"
  by (simp add: chain_server_foldr)

lemma chain_server_append:
  "ChainUnaryServerInterceptors (xs @ ys) ctx req info h =
     ChainUnaryServerInterceptors xs ctx req info
       (\<lambda>c r. ChainUnaryServerInterceptors ys c r info h)"
  by (simp add: chain_server_foldr)

lemma client_loop_take:
  "n \<le> length ics \<Longrightarrow>
   client_loop (int n - 1) ics h =
     foldr (\<lambda>x nxt. (\<lambda>c m r rp cc os. x c m r rp cc nxt os)) (take n ics) h"
proof (induction n arbitrary: h)
  case 0
  show ?case by (subst client_loop.simps) simp
next
  case (Suc n)
  from Suc.prems have n: "n < length ics" by simp
  have "client_loop (int (Suc n) - 1) ics h =
        client_loop (int n - 1) ics (\<lambda>c m r rp cc os. (ics ! n) c m r rp cc h os)"
    by (subst client_loop.simps) simp
  also have "\<dots> = foldr (\<lambda>x nxt. (\<lambda>c m r rp cc os. x c m r rp cc nxt os)) (take n ics)
                    (\<lambda>c m r rp cc os. (ics ! n) c m r rp cc h os)"
    using n by (simp add: Suc.IH)
  also have "\<dots> = foldr (\<lambda>x nxt. (\<lambda>c m r rp cc os. x c m r rp cc nxt os))
                    (take (Suc n) ics) h"
    using n by (simp add: take_Suc_conv_app_nth)
  finally show ?case .
qed

lemma chain_client_foldr:
  "ChainUnaryClientInterceptors ics ctx m req rp cc h os =
     foldr (\<lambda>x nxt. (\<lambda>c m r rp cc os. x c m r rp cc nxt os)) ics h ctx m req rp cc os"
  by (simp add: ChainUnaryClientInterceptors_def client_loop_take)

lemma chain_client_Nil:
  "ChainUnaryClientInterceptors [] ctx m req rp cc h os = h ctx m req rp cc os"
  by (simp add: chain_client_foldr)

lemma chain_client_Cons:
  "ChainUnaryClientInterceptors (x # xs) ctx m req rp cc h os =
     x ctx m req rp cc
       (\<lambda>c m' r rp' cc' os'. ChainUnaryClientInterceptors xs c m' r rp' cc' h os') os"
  by (simp add: chain_client_foldr)

lemma chain_client_append:
  "ChainUnaryClientInterceptors (xs @ ys) ctx m req rp cc h os =
     ChainUnaryClientInterceptors xs ctx m req rp cc
       (\<lambda>c m' r rp' cc' os'. ChainUnaryClientInterceptors ys c m' r rp' cc' h os') os"
  by (simp add: chain_client_foldr)

section \<open>Properties of the chain builder\<close>

text \<open>
  C4. Composing the empty sequence of interceptors gives an interceptor that does exactly
  what the terminal handler (resp. invoker) does: for every context, request, call
  metadata and handler, and from every world, the result and the world left behind are
  those of the handler called directly.
\<close>

theorem chain_empty_identity:
  "ChainUnaryServerInterceptors [] ctx req info handler = handler ctx req
   \<and> ChainUnaryClientInterceptors [] ctx meth req reply cc invoker opts =
       invoker ctx meth req reply cc opts"
  by (simp add: chain_server_Nil chain_client_Nil)

text \<open>
  C1. In a chain of at least one interceptor the interceptor at index 0 is the outermost
  layer: invoking the composed interceptor is invoking that interceptor, with the chain
  of the remaining interceptors as its continuation, so all it does before calling the
  continuation comes first and all it does afterwards comes last. At every index \<open>k\<close>
  the layer built by the loop runs the interceptor at \<open>k\<close> on the continuation built
  from the interceptors after \<open>k\<close>, which ends in the handler (resp. invoker) supplied at
  call time: every layer holds its own interceptor and its own continuation.
\<close>

theorem chain_onion_layers:
  "(ics \<noteq> [] \<longrightarrow>
      ChainUnaryServerInterceptors ics ctx req info handler =
        (ics ! 0) ctx req info
          (\<lambda>c r. ChainUnaryServerInterceptors (drop 1 ics) c r info handler))
   \<and> (k < length ics \<longrightarrow>
      ChainUnaryServerInterceptors (drop k ics) ctx req info handler =
        (ics ! k) ctx req info
          (\<lambda>c r. ChainUnaryServerInterceptors (drop (Suc k) ics) c r info handler))
   \<and> ChainUnaryServerInterceptors (drop (length ics) ics) ctx req info handler =
        handler ctx req
   \<and> (cis \<noteq> [] \<longrightarrow>
      ChainUnaryClientInterceptors cis ctx meth req reply cc invoker opts =
        (cis ! 0) ctx meth req reply cc
          (\<lambda>c m r rp cn os.
             ChainUnaryClientInterceptors (drop 1 cis) c m r rp cn invoker os) opts)
   \<and> (j < length cis \<longrightarrow>
      ChainUnaryClientInterceptors (drop j cis) ctx meth req reply cc invoker opts =
        (cis ! j) ctx meth req reply cc
          (\<lambda>c m r rp cn os.
             ChainUnaryClientInterceptors (drop (Suc j) cis) c m r rp cn invoker os) opts)
   \<and> ChainUnaryClientInterceptors (drop (length cis) cis) ctx meth req reply cc invoker opts =
        invoker ctx meth req reply cc opts"
proof -
  have s0: "ics \<noteq> [] \<Longrightarrow>
      ChainUnaryServerInterceptors ics ctx req info handler =
        (ics ! 0) ctx req info
          (\<lambda>c r. ChainUnaryServerInterceptors (drop 1 ics) c r info handler)"
    by (cases ics) (simp_all add: chain_server_Cons)
  have sk: "k < length ics \<Longrightarrow>
      ChainUnaryServerInterceptors (drop k ics) ctx req info handler =
        (ics ! k) ctx req info
          (\<lambda>c r. ChainUnaryServerInterceptors (drop (Suc k) ics) c r info handler)"
    by (simp add: Cons_nth_drop_Suc [symmetric] chain_server_Cons)
  have c0: "cis \<noteq> [] \<Longrightarrow>
      ChainUnaryClientInterceptors cis ctx meth req reply cc invoker opts =
        (cis ! 0) ctx meth req reply cc
          (\<lambda>c m r rp cn os.
             ChainUnaryClientInterceptors (drop 1 cis) c m r rp cn invoker os) opts"
    by (cases cis) (simp_all add: chain_client_Cons)
  have cj: "j < length cis \<Longrightarrow>
      ChainUnaryClientInterceptors (drop j cis) ctx meth req reply cc invoker opts =
        (cis ! j) ctx meth req reply cc
          (\<lambda>c m r rp cn os.
             ChainUnaryClientInterceptors (drop (Suc j) cis) c m r rp cn invoker os) opts"
    by (simp add: Cons_nth_drop_Suc [symmetric] chain_client_Cons)
  from s0 sk c0 cj show ?thesis
    by (simp add: chain_server_Nil chain_client_Nil)
qed


text \<open>
  C10. A wrapper built by the chain builder hands to its interceptor the context and
  request it was called with: every interceptor, anywhere in a chain, is called with
  the context and request that the layer before it passed to its continuation (the
  composed interceptor's own for the first), and the continuation it gets is the chain
  of the interceptors after it, ending in the handler (resp. invoker). So whatever
  context and request an interceptor calls its continuation with are those the next
  interceptor, or the handler when none follows, is called with, while the server's
  call info is at every layer the one given to the composed interceptor. For an
  interceptor that does nothing but call its continuation with a changed context and
  request, the rest of the chain runs on the changed values.
\<close>

theorem chain_forwards_modified_arguments:
  "ChainUnaryServerInterceptors (pre @ x # rest) ctx req info handler =
     ChainUnaryServerInterceptors pre ctx req info
       (\<lambda>c r. x c r info (\<lambda>c' r'. ChainUnaryServerInterceptors rest c' r' info handler))
   \<and> ChainUnaryServerInterceptors (pre @ [x]) ctx req info handler =
     ChainUnaryServerInterceptors pre ctx req info (\<lambda>c r. x c r info handler)
   \<and> ChainUnaryServerInterceptors (x # rest) ctx req info handler =
     x ctx req info (\<lambda>c' r'. ChainUnaryServerInterceptors rest c' r' info handler)
   \<and> ChainUnaryClientInterceptors (cpre @ y # crest) ctx meth req reply cc invoker opts =
     ChainUnaryClientInterceptors cpre ctx meth req reply cc
       (\<lambda>c m r rp cn os.
          y c m r rp cn
            (\<lambda>c' m' r' rp' cn' os'.
               ChainUnaryClientInterceptors crest c' m' r' rp' cn' invoker os') os) opts
   \<and> ChainUnaryClientInterceptors (cpre @ [y]) ctx meth req reply cc invoker opts =
     ChainUnaryClientInterceptors cpre ctx meth req reply cc
       (\<lambda>c m r rp cn os. y c m r rp cn invoker os) opts
   \<and> ChainUnaryClientInterceptors (y # crest) ctx meth req reply cc invoker opts =
     y ctx meth req reply cc
       (\<lambda>c' m' r' rp' cn' os'.
          ChainUnaryClientInterceptors crest c' m' r' rp' cn' invoker os') opts
   \<and> ChainUnaryServerInterceptors (pre @ rewrite_server f g # rest) ctx req info handler =
     ChainUnaryServerInterceptors pre ctx req info
       (\<lambda>c r. ChainUnaryServerInterceptors rest (f c) (g r) info handler)
   \<and> ChainUnaryServerInterceptors (pre @ [rewrite_server f g]) ctx req info handler =
     ChainUnaryServerInterceptors pre ctx req info (\<lambda>c r. handler (f c) (g r))
   \<and> ChainUnaryClientInterceptors (cpre @ rewrite_client f g # crest)
       ctx meth req reply cc invoker opts =
     ChainUnaryClientInterceptors cpre ctx meth req reply cc
       (\<lambda>c m r rp cn os. ChainUnaryClientInterceptors crest (f c) m (g r) rp cn invoker os) opts
   \<and> ChainUnaryClientInterceptors (cpre @ [rewrite_client f g])
       ctx meth req reply cc invoker opts =
     ChainUnaryClientInterceptors cpre ctx meth req reply cc
       (\<lambda>c m r rp cn os. invoker (f c) m (g r) rp cn os) opts"
  by (simp add: chain_server_Cons chain_server_append chain_server_Nil
      chain_client_Cons chain_client_append chain_client_Nil
      rewrite_server_def rewrite_client_def)

subsection \<open>Call metadata\<close>

lemma chain_server_with_info:
  "ChainUnaryServerInterceptors (map (with_info info) ics) ctx req info' handler =
   ChainUnaryServerInterceptors ics ctx req info handler"
  by (induction ics arbitrary: ctx req) (simp_all add: chain_server_Nil chain_server_Cons with_info_def)

lemma chain_client_with_call_any:
  "ChainUnaryClientInterceptors (map (with_call m cc os) xs) c m1 r rp cc1
     (invoker_at m cc os ivk) os1 =
   ChainUnaryClientInterceptors (map (with_call m cc os) xs) c m2 r rp cc2
     (invoker_at m cc os ivk) os2"
  by (cases xs) (simp_all add: chain_client_Nil chain_client_Cons with_call_def invoker_at_def)

lemma chain_client_with_call:
  "\<forall>x \<in> set xs. forwards_call x \<Longrightarrow>
   ChainUnaryClientInterceptors xs ctx m req rp cc ivk os =
   ChainUnaryClientInterceptors (map (with_call m cc os) xs) ctx m' req rp cc'
     (invoker_at m cc os ivk) os'"
proof (induction xs arbitrary: ctx req rp m' cc' os')
  case Nil
  show ?case by (simp add: chain_client_Nil invoker_at_def)
next
  case (Cons x xs)
  let ?P = "with_call m cc os"
  let ?N1 = "\<lambda>c m1 r rp1 cc1 os1. ChainUnaryClientInterceptors xs c m1 r rp1 cc1 ivk os1"
  let ?N2 = "\<lambda>c m1 r rp1 cc1 os1.
     ChainUnaryClientInterceptors (map ?P xs) c m1 r rp1 cc1 (invoker_at m cc os ivk) os1"
  from Cons.prems have fx: "forwards_call x" and fxs: "\<forall>x \<in> set xs. forwards_call x"
    by simp_all
  have step: "ChainUnaryClientInterceptors xs c m r rp1 cc ivk os =
      ChainUnaryClientInterceptors (map ?P xs) c m r rp1 cc (invoker_at m cc os ivk) os"
    for c r rp1
    by (rule Cons.IH [OF fxs])
  have inner: "invoker_at m cc os ?N1 = invoker_at m cc os ?N2"
    by (subst (1 2) invoker_at_def) (simp only: step)
  have "ChainUnaryClientInterceptors (x # xs) ctx m req rp cc ivk os =
        x ctx m req rp cc ?N1 os"
    by (simp add: chain_client_Cons)
  also have "\<dots> = x ctx m req rp cc (invoker_at m cc os ?N1) os"
    using fx [unfolded forwards_call_def, rule_format, of ctx m req rp cc ?N1 os] .
  also have "\<dots> = x ctx m req rp cc (invoker_at m cc os ?N2) os"
    by (simp only: inner)
  also have "\<dots> = x ctx m req rp cc ?N2 os"
    using fx [unfolded forwards_call_def, rule_format, of ctx m req rp cc ?N2 os] by simp
  also have "\<dots> = ChainUnaryClientInterceptors (map ?P (x # xs)) ctx m' req rp cc'
                    (invoker_at m cc os ivk) os'"
    by (simp add: chain_client_Cons with_call_def)
  finally show ?case .
qed

text \<open>
  C8, as the code has it. On the server every layer of a chain is called with the call
  info given to the composed interceptor: the outcome is the same when every
  interceptor is replaced by one that ignores the info it is handed and uses the
  composed interceptor's. On the client each wrapper passes to its interceptor the
  method, connection and options the wrapper itself was called with, unchanged: the
  first interceptor gets those given to the composed interceptor, and every later one
  those that the interceptor before it passed to its continuation. Hence every layer
  and the invoker are called with those given to the composed interceptor provided
  every interceptor hands on to its continuation the ones it was given.
\<close>

theorem chain_metadata_frame:
  "ChainUnaryServerInterceptors ics ctx req info handler =
     ChainUnaryServerInterceptors (map (with_info info) ics) ctx req info' handler
   \<and> ChainUnaryClientInterceptors (y # crest) ctx meth req reply cc invoker opts =
     y ctx meth req reply cc
       (\<lambda>c m r rp cn os. ChainUnaryClientInterceptors crest c m r rp cn invoker os) opts
   \<and> ChainUnaryClientInterceptors (cpre @ y # crest) ctx meth req reply cc invoker opts =
     ChainUnaryClientInterceptors cpre ctx meth req reply cc
       (\<lambda>c m r rp cn os.
          y c m r rp cn
            (\<lambda>c' m' r' rp' cn' os'.
               ChainUnaryClientInterceptors crest c' m' r' rp' cn' invoker os') os) opts
   \<and> ChainUnaryClientInterceptors [] ctx meth req reply cc invoker opts =
     invoker ctx meth req reply cc opts
   \<and> ((\<forall>y \<in> set cis. forwards_call y) \<longrightarrow>
        ChainUnaryClientInterceptors cis ctx meth req reply cc invoker opts =
          ChainUnaryClientInterceptors (map (with_call meth cc opts) cis)
            ctx meth' req reply cc' (invoker_at meth cc opts invoker) opts')"
  using chain_client_with_call [of cis ctx meth req reply cc invoker opts meth' cc' opts']
  by (simp add: chain_server_with_info chain_client_Cons chain_client_append
      chain_client_Nil)

text \<open>
  C8 as stated fails on the client: behind an interceptor that calls its continuation
  under another method name, the next layer is called with that name and not with the
  one given to the composed interceptor.
\<close>

theorem chain_client_metadata_counterexample:
  "ChainUnaryClientInterceptors [retarget_client, report_method_client]
     ctx_untraced ''/search.Search/Nearby'' NilValue NilValue None (reply_invoker None) []
     world0 =
   (Return (Some ''/other.Service/Call''), world0)
   \<and> ChainUnaryClientInterceptors [retarget_client, report_method_client]
     ctx_untraced ''/search.Search/Nearby'' NilValue NilValue None (reply_invoker None) []
     world0 \<noteq>
   ChainUnaryClientInterceptors
     (map (with_call ''/search.Search/Nearby'' None []) [retarget_client, report_method_client])
     ctx_untraced ''/search.Search/Nearby'' NilValue NilValue None (reply_invoker None) []
     world0"
  by (simp add: chain_client_Cons chain_client_Nil retarget_client_def
      report_method_client_def with_call_def ret_def)

section \<open>Properties of the size-tagging interceptors\<close>

lemmas comp_defs =
  andThen_def ret_def deref_def SetTag_def Msgf_def proto_Size_def SpanFromContext_def

lemma server_untraced_run:
  "SpanFromContext ctx = None \<Longrightarrow>
   SizeTaggingUnaryServerInterceptor ctx req info handler w = handler ctx req w"
  by (simp add: SizeTaggingUnaryServerInterceptor_def comp_defs
      split: prod.splits result.splits)

lemma client_untraced_run:
  "SpanFromContext ctx = None \<Longrightarrow>
   SizeTaggingUnaryClientInterceptor ctx meth req reply cc invoker opts w =
     invoker ctx meth req reply cc opts w"
  by (simp add: SizeTaggingUnaryClientInterceptor_def comp_defs
      split: prod.splits result.splits)

text \<open>With a span and a non-nil call info, the server interceptor runs the handler in
  the world extended by the request events, and extends the world the handler leaves
  by the response events.\<close>

lemma server_traced_run:
  "SpanFromContext ctx = Some sp \<Longrightarrow>
   SizeTaggingUnaryServerInterceptor ctx req (Some i) handler w =
     (case handler ctx req
             (w\<lparr>events := events w @
             (case req of
                ProtoMessage m \<Rightarrow>
                  [TagSet sp ''grpc.request.size'' (TInt (msg_size w m)),
                   Logged Info ''Request size for %s: %d bytes''
                     [AStr (FullMethod i), AInt (msg_size w m)]]
              | _ \<Rightarrow>
                  [Logged Warn ''Request for method %s is not a proto.Message''
                     [AStr (FullMethod i)],
                   TagSet sp ''grpc.request.size'' (TInt (- 1))])\<rparr>) of
        (Panic, w2) \<Rightarrow> (Panic, w2)
      | (Return (resp, err), w2) \<Rightarrow>
          (Return (resp, err),
           w2\<lparr>events := events w2 @
                  (case err of
                     Some _ \<Rightarrow> []
                   | None \<Rightarrow>
                       (case resp of
                          ProtoMessage m' \<Rightarrow>
                            [TagSet sp ''grpc.response.size'' (TInt (msg_size w2 m')),
                             Logged Info ''Response size for %s: %d bytes''
                               [AStr (FullMethod i), AInt (msg_size w2 m')]]
                        | _ \<Rightarrow>
                            [Logged Warn ''Response for method %s is not a proto.Message''
                               [AStr (FullMethod i)],
                             TagSet sp ''grpc.response.size'' (TInt (- 1))]))\<rparr>))"
  by (cases req)
     (simp_all add: SizeTaggingUnaryServerInterceptor_def comp_defs
        split: prod.splits result.splits option.splits payload.splits)

lemma client_traced_run:
  "SpanFromContext ctx = Some sp \<Longrightarrow>
   SizeTaggingUnaryClientInterceptor ctx meth req reply cc invoker opts w =
     (case invoker ctx meth req reply cc opts
             (w\<lparr>events := events w @
             (case req of
                ProtoMessage m \<Rightarrow>
                  [TagSet sp ''grpc.request.size'' (TInt (msg_size w m)),
                   Logged Info ''Request size for %s: %d bytes''
                     [AStr meth, AInt (msg_size w m)]]
              | _ \<Rightarrow>
                  [Logged Warn ''Request for method %s is not a proto.Message''
                     [AStr meth],
                   TagSet sp ''grpc.request.size'' (TStr ''unknown'')])\<rparr>) of
        (Panic, w2) \<Rightarrow> (Panic, w2)
      | (Return err, w2) \<Rightarrow>
          (Return err,
           w2\<lparr>events := events w2 @
                  (case err of
                     Some _ \<Rightarrow> []
                   | None \<Rightarrow>
                       (case reply of
                          ProtoMessage m' \<Rightarrow>
                            [TagSet sp ''grpc.response.size'' (TInt (msg_size w2 m')),
                             Logged Info ''Response size for %s: %d bytes''
                               [AStr meth, AInt (msg_size w2 m')]]
                        | _ \<Rightarrow>
                            [Logged Warn ''Response for method %s is not a proto.Message''
                               [AStr meth],
                             TagSet sp ''grpc.response.size'' (TStr ''unknown'')]))\<rparr>))"
  by (cases req)
     (simp_all add: SizeTaggingUnaryClientInterceptor_def comp_defs
        split: prod.splits result.splits option.splits payload.splits)

text \<open>With a span and a nil call info the server interceptor panics where it reads
  \<^verbatim>\<open>info.FullMethod\<close>: after the tag of a request that is a message, before anything
  else otherwise. The handler is not called.\<close>

lemma server_nil_info_panics:
  "SpanFromContext ctx = Some sp \<Longrightarrow>
   SizeTaggingUnaryServerInterceptor ctx req None handler w =
     (Panic,
      case req of
        ProtoMessage m \<Rightarrow>
          w\<lparr>events := events w @ [TagSet sp ''grpc.request.size'' (TInt (msg_size w m))]\<rparr>
      | _ \<Rightarrow> w)"
  by (cases req) (simp_all add: SizeTaggingUnaryServerInterceptor_def comp_defs)

text \<open>
  C7. When the context carries no span, the size-tagging interceptors (server and
  client) call the handler (resp. invoker) with the context and request they were
  given, in the world as they found it, and their outcome is the handler's: the same
  result and the same world, so no tag is set and no line is logged by the interceptor.
  On the server this holds for a nil call info as well.
\<close>

theorem size_tagging_without_span:
  "SpanFromContext ctx = None \<longrightarrow>
     SizeTaggingUnaryServerInterceptor ctx req info handler w = handler ctx req w
     \<and> SizeTaggingUnaryClientInterceptor ctx meth req reply cc invoker opts w =
         invoker ctx meth req reply cc opts w"
  by (simp add: server_untraced_run client_untraced_run)

text \<open>
  C2. With a span in the context, when the handler (resp. invoker), called after the
  request-size events (the computed size of a request that is a message, the sentinel
  and a warning otherwise), returns a non-nil error, the size-tagging interceptor
  returns exactly the handler's response and error and leaves the world as the
  handler left it: no response-size tag is set and nothing more is logged.
\<close>

theorem size_tagging_error_passthrough:
  "(SpanFromContext ctx = Some sp \<and>
    handler ctx req
      (w\<lparr>events := events w @
           (case req of
              ProtoMessage m \<Rightarrow>
                [TagSet sp ''grpc.request.size'' (TInt (msg_size w m)),
                 Logged Info ''Request size for %s: %d bytes''
                   [AStr (FullMethod i), AInt (msg_size w m)]]
            | _ \<Rightarrow>
                [Logged Warn ''Request for method %s is not a proto.Message''
                   [AStr (FullMethod i)],
                 TagSet sp ''grpc.request.size'' (TInt (- 1))])\<rparr>) =
      (Return (resp, Some e), w')
    \<longrightarrow> SizeTaggingUnaryServerInterceptor ctx req (Some i) handler w =
          (Return (resp, Some e), w'))
   \<and> (SpanFromContext ctx = Some sp \<and>
    invoker ctx meth req reply cc opts
      (w\<lparr>events := events w @
           (case req of
              ProtoMessage m \<Rightarrow>
                [TagSet sp ''grpc.request.size'' (TInt (msg_size w m)),
                 Logged Info ''Request size for %s: %d bytes''
                   [AStr meth, AInt (msg_size w m)]]
            | _ \<Rightarrow>
                [Logged Warn ''Request for method %s is not a proto.Message''
                   [AStr meth],
                 TagSet sp ''grpc.request.size'' (TStr ''unknown'')])\<rparr>) =
      (Return (Some e), w')
    \<longrightarrow> SizeTaggingUnaryClientInterceptor ctx meth req reply cc invoker opts w =
          (Return (Some e), w'))"
  by (simp add: server_traced_run client_traced_run)

text \<open>
  C3. With a span in the context and a request that is not a message, the server
  interceptor logs a warning and tags the span with \<open>grpc.request.size = -1\<close>, the
  client interceptor logs a warning and tags it with \<open>grpc.request.size = "unknown"\<close>,
  and then the handler (resp. invoker) is called with the context and request given.
  What it returns is returned; after a nil error the response events follow: the
  computed size of a response that is a message, and otherwise a warning with the
  sentinel, \<open>-1\<close> on the server and \<open>"unknown"\<close> on the client.
\<close>

theorem size_tagging_sentinel:
  "(SpanFromContext ctx = Some sp \<and> \<not> is_proto req
    \<longrightarrow> SizeTaggingUnaryServerInterceptor ctx req (Some i) handler w =
          (case handler ctx req
                  (w\<lparr>events := events w @
                       [Logged Warn ''Request for method %s is not a proto.Message''
                          [AStr (FullMethod i)],
                        TagSet sp ''grpc.request.size'' (TInt (- 1))]\<rparr>) of
             (Panic, w2) \<Rightarrow> (Panic, w2)
           | (Return (resp, err), w2) \<Rightarrow>
               (Return (resp, err),
                w2\<lparr>events := events w2 @
                  (case err of
                     Some _ \<Rightarrow> []
                   | None \<Rightarrow>
                       (case resp of
                          ProtoMessage m' \<Rightarrow>
                            [TagSet sp ''grpc.response.size'' (TInt (msg_size w2 m')),
                             Logged Info ''Response size for %s: %d bytes''
                               [AStr (FullMethod i), AInt (msg_size w2 m')]]
                        | _ \<Rightarrow>
                            [Logged Warn ''Response for method %s is not a proto.Message''
                               [AStr (FullMethod i)],
                             TagSet sp ''grpc.response.size'' (TInt (- 1))]))\<rparr>)))
   \<and> (SpanFromContext ctx = Some sp \<and> \<not> is_proto req
    \<longrightarrow> SizeTaggingUnaryClientInterceptor ctx meth req reply cc invoker opts w =
          (case invoker ctx meth req reply cc opts
                  (w\<lparr>events := events w @
                       [Logged Warn ''Request for method %s is not a proto.Message''
                          [AStr meth],
                        TagSet sp ''grpc.request.size'' (TStr ''unknown'')]\<rparr>) of
             (Panic, w2) \<Rightarrow> (Panic, w2)
           | (Return err, w2) \<Rightarrow>
               (Return err,
                w2\<lparr>events := events w2 @
                  (case err of
                     Some _ \<Rightarrow> []
                   | None \<Rightarrow>
                       (case reply of
                          ProtoMessage m' \<Rightarrow>
                            [TagSet sp ''grpc.response.size'' (TInt (msg_size w2 m')),
                             Logged Info ''Response size for %s: %d bytes''
                               [AStr meth, AInt (msg_size w2 m')]]
                        | _ \<Rightarrow>
                            [Logged Warn ''Response for method %s is not a proto.Message''
                               [AStr meth],
                             TagSet sp ''grpc.response.size'' (TStr ''unknown'')]))\<rparr>)))"
  by (cases req) (simp_all add: server_traced_run client_traced_run)

text \<open>
  C6. With a span in the context, a request message of computed size 42, and a handler
  that, called after the request events, returns a nil error and a response message
  whose computed size is then 17: the server interceptor has set
  \<open>grpc.request.size = 42\<close> before calling the handler, sets \<open>grpc.response.size = 17\<close>
  after it returned, and returns the handler's response and nil error.
\<close>

theorem size_tagging_42_17:
  "SpanFromContext ctx = Some sp \<and> msg_size w m = 42 \<and>
   handler ctx (ProtoMessage m)
     (w\<lparr>events := events w @
          [TagSet sp ''grpc.request.size'' (TInt 42),
           Logged Info ''Request size for %s: %d bytes'' [AStr (FullMethod i), AInt 42]]\<rparr>) =
     (Return (ProtoMessage m', None), w2) \<and>
   msg_size w2 m' = 17
   \<longrightarrow> SizeTaggingUnaryServerInterceptor ctx (ProtoMessage m) (Some i) handler w =
         (Return (ProtoMessage m', None),
          w2\<lparr>events := events w2 @
               [TagSet sp ''grpc.response.size'' (TInt 17),
                Logged Info ''Response size for %s: %d bytes''
                  [AStr (FullMethod i), AInt 17]]\<rparr>)"
  by (simp add: server_traced_run)

text \<open>
  C9. With a span in the context, when the handler returns a nil error and a response
  that is not a message (the nil response among them), the server interceptor logs a
  warning and tags the span with \<open>grpc.response.size = -1\<close>; when the invoker returns a
  nil error and the reply slot is not a message, the client interceptor logs a warning
  and tags the span with \<open>grpc.response.size = "unknown"\<close>.
\<close>

theorem size_tagging_response_sentinel:
  "(SpanFromContext ctx = Some sp \<and> \<not> is_proto resp \<and>
    handler ctx req
      (w\<lparr>events := events w @
           (case req of
              ProtoMessage m \<Rightarrow>
                [TagSet sp ''grpc.request.size'' (TInt (msg_size w m)),
                 Logged Info ''Request size for %s: %d bytes''
                   [AStr (FullMethod i), AInt (msg_size w m)]]
            | _ \<Rightarrow>
                [Logged Warn ''Request for method %s is not a proto.Message''
                   [AStr (FullMethod i)],
                 TagSet sp ''grpc.request.size'' (TInt (- 1))])\<rparr>) =
      (Return (resp, None), w2)
    \<longrightarrow> SizeTaggingUnaryServerInterceptor ctx req (Some i) handler w =
          (Return (resp, None),
           w2\<lparr>events := events w2 @
                    [Logged Warn ''Response for method %s is not a proto.Message''
                       [AStr (FullMethod i)],
                     TagSet sp ''grpc.response.size'' (TInt (- 1))]\<rparr>))
   \<and> (SpanFromContext ctx = Some sp \<and>
    handler ctx req
      (w\<lparr>events := events w @
           (case req of
              ProtoMessage m \<Rightarrow>
                [TagSet sp ''grpc.request.size'' (TInt (msg_size w m)),
                 Logged Info ''Request size for %s: %d bytes''
                   [AStr (FullMethod i), AInt (msg_size w m)]]
            | _ \<Rightarrow>
                [Logged Warn ''Request for method %s is not a proto.Message''
                   [AStr (FullMethod i)],
                 TagSet sp ''grpc.request.size'' (TInt (- 1))])\<rparr>) =
      (Return (NilValue, None), w2)
    \<longrightarrow> SizeTaggingUnaryServerInterceptor ctx req (Some i) handler w =
          (Return (NilValue, None),
           w2\<lparr>events := events w2 @
                    [Logged Warn ''Response for method %s is not a proto.Message''
                       [AStr (FullMethod i)],
                     TagSet sp ''grpc.response.size'' (TInt (- 1))]\<rparr>))
   \<and> (SpanFromContext ctx = Some sp \<and> \<not> is_proto reply \<and>
    invoker ctx meth req reply cc opts
      (w\<lparr>events := events w @
           (case req of
              ProtoMessage m \<Rightarrow>
                [TagSet sp ''grpc.request.size'' (TInt (msg_size w m)),
                 Logged Info ''Request size for %s: %d bytes''
                   [AStr meth, AInt (msg_size w m)]]
            | _ \<Rightarrow>
                [Logged Warn ''Request for method %s is not a proto.Message''
                   [AStr meth],
                 TagSet sp ''grpc.request.size'' (TStr ''unknown'')])\<rparr>) =
      (Return None, w2)
    \<longrightarrow> SizeTaggingUnaryClientInterceptor ctx meth req reply cc invoker opts w =
          (Return None,
           w2\<lparr>events := events w2 @
                    [Logged Warn ''Response for method %s is not a proto.Message''
                       [AStr meth],
                     TagSet sp ''grpc.response.size'' (TStr ''unknown'')]\<rparr>))"
proof -
  have r: "\<not> is_proto p \<Longrightarrow> (case p of ProtoMessage m' \<Rightarrow> a m' | _ \<Rightarrow> b) = b"
    for p :: payload and a :: "msg \<Rightarrow> event list" and b
    by (cases p) simp_all
  show ?thesis
    by (simp add: server_traced_run client_traced_run r)
qed

section \<open>Concrete runs\<close>

text \<open>The chain \<open>[A, B, C]\<close> around a handler \<open>H\<close> runs in the order A-before, B-before,
  C-before, H, C-after, B-after, A-after.\<close>

lemma onion_order_example:
  "ChainUnaryServerInterceptors [note_server ''A'', note_server ''B'', note_server ''C'']
     ctx_untraced (NotProto 3) None noting_handler world0 =
   (Return (NotProto 3, None),
    world0\<lparr>events :=
      [Logged Info ''before'' [AStr ''A''], Logged Info ''before'' [AStr ''B''],
       Logged Info ''before'' [AStr ''C''], Logged Info ''handler'' [],
       Logged Info ''after'' [AStr ''C''], Logged Info ''after'' [AStr ''B''],
       Logged Info ''after'' [AStr ''A'']]\<rparr>)"
  by (simp add: chain_server_Cons chain_server_Nil note_server_def noting_handler_def
      andThen_def ret_def Msgf_def world0_def)

theorem chain_onion_layers_witness:
  "[note_server ''A'', SizeTaggingUnaryServerInterceptor] \<noteq> []
   \<and> (1::nat) < length [note_server ''A'', SizeTaggingUnaryServerInterceptor]
   \<and> [pass_client, SizeTaggingUnaryClientInterceptor] \<noteq> []
   \<and> (1::nat) < length [pass_client, SizeTaggingUnaryClientInterceptor]
   \<and> ChainUnaryServerInterceptors [note_server ''A'', SizeTaggingUnaryServerInterceptor]
       ctx_untraced (NotProto 3) None noting_handler world0 =
     note_server ''A'' ctx_untraced (NotProto 3) None
       (\<lambda>c r. ChainUnaryServerInterceptors [SizeTaggingUnaryServerInterceptor]
                 c r None noting_handler) world0
   \<and> ChainUnaryServerInterceptors [SizeTaggingUnaryServerInterceptor]
       ctx_untraced (NotProto 3) None noting_handler world0 =
     SizeTaggingUnaryServerInterceptor ctx_untraced (NotProto 3) None
       (\<lambda>c r. ChainUnaryServerInterceptors [] c r None noting_handler) world0
   \<and> ChainUnaryClientInterceptors [pass_client, SizeTaggingUnaryClientInterceptor]
       ctx_untraced ''/search.Search/Nearby'' (NotProto 3) NilValue None
       (reply_invoker None) [] world0 =
     pass_client ctx_untraced ''/search.Search/Nearby'' (NotProto 3) NilValue None
       (\<lambda>c m r rp cn os.
          ChainUnaryClientInterceptors [SizeTaggingUnaryClientInterceptor]
            c m r rp cn (reply_invoker None) os) [] world0
   \<and> ChainUnaryClientInterceptors [SizeTaggingUnaryClientInterceptor]
       ctx_untraced ''/search.Search/Nearby'' (NotProto 3) NilValue None
       (reply_invoker None) [] world0 =
     SizeTaggingUnaryClientInterceptor
       ctx_untraced ''/search.Search/Nearby'' (NotProto 3) NilValue None
       (\<lambda>c m r rp cn os.
          ChainUnaryClientInterceptors [] c m r rp cn (reply_invoker None) os) [] world0"
  using chain_onion_layers
    [where ics = "[note_server ''A'', SizeTaggingUnaryServerInterceptor]" and k = 1
       and cis = "[pass_client, SizeTaggingUnaryClientInterceptor]" and j = 1
       and ctx = ctx_untraced and req = "NotProto 3" and info = None
       and handler = noting_handler and meth = "''/search.Search/Nearby''"
       and reply = NilValue and cc = None and invoker = "reply_invoker None"
       and opts = "[]"]
  by (simp add: chain_server_Cons chain_server_Nil chain_client_Cons chain_client_Nil)

lemmas example_defs =
  ctx_traced_def ctx_untraced_def nearby_info_def world0_def sizes0_def
  reply_handler_def reply_invoker_def noting_handler_def note_server_def
  deny_server_def deny_client_def pass_client_def


lemma forwards_call_pass: "forwards_call pass_client"
  by (simp add: forwards_call_def pass_client_def invoker_at_def)

lemma forwards_call_size_tagging: "forwards_call SizeTaggingUnaryClientInterceptor"
  by (simp add: forwards_call_def SizeTaggingUnaryClientInterceptor_def invoker_at_def)

theorem chain_metadata_frame_witness:
  "forwards_call (pass_client :: world UnaryClientInterceptor)
   \<and> forwards_call (SizeTaggingUnaryClientInterceptor :: world UnaryClientInterceptor)
   \<and> ChainUnaryClientInterceptors [pass_client, SizeTaggingUnaryClientInterceptor]
       ctx_traced ''/search.Search/Nearby'' (ProtoMessage 1) NilValue None
       (reply_invoker None) [] world0 =
     ChainUnaryClientInterceptors
       (map (with_call ''/search.Search/Nearby'' None [])
          [pass_client, SizeTaggingUnaryClientInterceptor])
       ctx_traced ''/other.Service/Call'' (ProtoMessage 1) NilValue (Some 4)
       (invoker_at ''/search.Search/Nearby'' None [] (reply_invoker None)) [7] world0
   \<and> ChainUnaryServerInterceptors [note_server ''A'', SizeTaggingUnaryServerInterceptor]
       ctx_traced (ProtoMessage 1) (Some nearby_info) noting_handler world0 =
     ChainUnaryServerInterceptors
       (map (with_info (Some nearby_info))
          [note_server ''A'', SizeTaggingUnaryServerInterceptor])
       ctx_traced (ProtoMessage 1) None noting_handler world0"
proof -
  have fc: "\<forall>y \<in> set [pass_client,
        SizeTaggingUnaryClientInterceptor :: world UnaryClientInterceptor]. forwards_call y"
    by (simp add: forwards_call_pass forwards_call_size_tagging)
  note frame = chain_metadata_frame
    [where cis = "[pass_client, SizeTaggingUnaryClientInterceptor]"
       and ctx = ctx_traced and meth = "''/search.Search/Nearby''"
       and req = "ProtoMessage 1" and reply = NilValue and cc = None
       and invoker = "reply_invoker None :: world UnaryInvoker" and opts = "[]"
       and meth' = "''/other.Service/Call''" and cc' = "Some 4" and opts' = "[7]"
       and ics = "[note_server ''A'', SizeTaggingUnaryServerInterceptor]"
       and info = "Some nearby_info" and info' = None and handler = noting_handler]
  from frame fc show ?thesis
    by (metis (no_types) forwards_call_pass forwards_call_size_tagging)
qed

theorem size_tagging_without_span_witness:
  "SpanFromContext ctx_untraced = None
   \<and> SizeTaggingUnaryServerInterceptor ctx_untraced (ProtoMessage 1) None noting_handler
       world0 =
     (Return (ProtoMessage 1, None), world0\<lparr>events := [Logged Info ''handler'' []]\<rparr>)
   \<and> SizeTaggingUnaryClientInterceptor ctx_untraced ''/search.Search/Nearby''
       (ProtoMessage 1) NilValue None (reply_invoker None) [] world0 =
     (Return None, world0)"
  using size_tagging_without_span
    [where ctx = ctx_untraced and req = "ProtoMessage 1" and info = None
       and handler = noting_handler and w = world0
       and meth = "''/search.Search/Nearby''" and reply = NilValue and cc = None
       and invoker = "reply_invoker None" and opts = "[]"]
  by (simp add: example_defs SpanFromContext_def andThen_def ret_def Msgf_def)

theorem size_tagging_error_passthrough_witness:
  "SpanFromContext ctx_traced = Some 5
   \<and> SizeTaggingUnaryServerInterceptor ctx_traced (ProtoMessage 1) (Some nearby_info)
       (reply_handler NilValue (Some ''unavailable'')) world0 =
     (Return (NilValue, Some ''unavailable''),
      world0\<lparr>events :=
        [TagSet 5 ''grpc.request.size'' (TInt 42),
         Logged Info ''Request size for %s: %d bytes''
           [AStr ''/search.Search/Nearby'', AInt 42]]\<rparr>)
   \<and> SizeTaggingUnaryClientInterceptor ctx_traced ''/search.Search/Nearby''
       (ProtoMessage 1) (ProtoMessage 2) None (reply_invoker (Some ''unavailable'')) []
       world0 =
     (Return (Some ''unavailable''),
      world0\<lparr>events :=
        [TagSet 5 ''grpc.request.size'' (TInt 42),
         Logged Info ''Request size for %s: %d bytes''
           [AStr ''/search.Search/Nearby'', AInt 42]]\<rparr>)"
  using size_tagging_error_passthrough
    [where ctx = ctx_traced and sp = 5 and req = "ProtoMessage 1" and w = world0
       and i = nearby_info and handler = "reply_handler NilValue (Some ''unavailable'')"
       and resp = NilValue and e = "''unavailable''"
       and w' = "world0\<lparr>events :=
          [TagSet 5 ''grpc.request.size'' (TInt 42),
           Logged Info ''Request size for %s: %d bytes''
             [AStr ''/search.Search/Nearby'', AInt 42]]\<rparr>"
       and meth = "''/search.Search/Nearby''" and reply = "ProtoMessage 2" and cc = None
       and invoker = "reply_invoker (Some ''unavailable'')" and opts = "[]"]
  by (simp add: example_defs SpanFromContext_def ret_def)

theorem size_tagging_sentinel_witness:
  "SpanFromContext ctx_traced = Some 5 \<and> \<not> is_proto (NotProto 3)
   \<and> SizeTaggingUnaryServerInterceptor ctx_traced (NotProto 3) (Some nearby_info)
       (reply_handler NilValue None) world0 =
     (Return (NilValue, None),
      world0\<lparr>events :=
        [Logged Warn ''Request for method %s is not a proto.Message''
           [AStr ''/search.Search/Nearby''],
         TagSet 5 ''grpc.request.size'' (TInt (- 1)),
         Logged Warn ''Response for method %s is not a proto.Message''
           [AStr ''/search.Search/Nearby''],
         TagSet 5 ''grpc.response.size'' (TInt (- 1))]\<rparr>)
   \<and> SizeTaggingUnaryClientInterceptor ctx_traced ''/search.Search/Nearby''
       (NotProto 3) (NotProto 4) None (reply_invoker None) [] world0 =
     (Return None,
      world0\<lparr>events :=
        [Logged Warn ''Request for method %s is not a proto.Message''
           [AStr ''/search.Search/Nearby''],
         TagSet 5 ''grpc.request.size'' (TStr ''unknown''),
         Logged Warn ''Response for method %s is not a proto.Message''
           [AStr ''/search.Search/Nearby''],
         TagSet 5 ''grpc.response.size'' (TStr ''unknown'')]\<rparr>)"
  using size_tagging_sentinel
    [where ctx = ctx_traced and sp = 5 and req = "NotProto 3" and w = world0
       and i = nearby_info and handler = "reply_handler NilValue None"
       and meth = "''/search.Search/Nearby''" and reply = "NotProto 4" and cc = None
       and invoker = "reply_invoker None" and opts = "[]"]
  by (simp add: example_defs SpanFromContext_def ret_def)

theorem size_tagging_42_17_witness:
  "SpanFromContext ctx_traced = Some 5 \<and> msg_size world0 1 = 42 \<and> msg_size world0 2 = 17
   \<and> SizeTaggingUnaryServerInterceptor ctx_traced (ProtoMessage 1) (Some nearby_info)
       (reply_handler (ProtoMessage 2) None) world0 =
     (Return (ProtoMessage 2, None),
      world0\<lparr>events :=
        [TagSet 5 ''grpc.request.size'' (TInt 42),
         Logged Info ''Request size for %s: %d bytes''
           [AStr ''/search.Search/Nearby'', AInt 42],
         TagSet 5 ''grpc.response.size'' (TInt 17),
         Logged Info ''Response size for %s: %d bytes''
           [AStr ''/search.Search/Nearby'', AInt 17]]\<rparr>)"
  using size_tagging_42_17
    [where ctx = ctx_traced and sp = 5 and m = 1 and w = world0 and i = nearby_info
       and handler = "reply_handler (ProtoMessage 2) None" and m' = 2
       and ?w2.0 = "world0\<lparr>events :=
          [TagSet 5 ''grpc.request.size'' (TInt 42),
           Logged Info ''Request size for %s: %d bytes''
             [AStr ''/search.Search/Nearby'', AInt 42]]\<rparr>"]
  by (simp add: example_defs SpanFromContext_def ret_def)

theorem size_tagging_response_sentinel_witness:
  "SpanFromContext ctx_traced = Some 5 \<and> \<not> is_proto NilValue \<and> \<not> is_proto (NotProto 4)
   \<and> SizeTaggingUnaryServerInterceptor ctx_traced (ProtoMessage 1) (Some nearby_info)
       (reply_handler NilValue None) world0 =
     (Return (NilValue, None),
      world0\<lparr>events :=
        [TagSet 5 ''grpc.request.size'' (TInt 42),
         Logged Info ''Request size for %s: %d bytes''
           [AStr ''/search.Search/Nearby'', AInt 42],
         Logged Warn ''Response for method %s is not a proto.Message''
           [AStr ''/search.Search/Nearby''],
         TagSet 5 ''grpc.response.size'' (TInt (- 1))]\<rparr>)
   \<and> SizeTaggingUnaryClientInterceptor ctx_traced ''/search.Search/Nearby''
       (ProtoMessage 1) (NotProto 4) None (reply_invoker None) [] world0 =
     (Return None,
      world0\<lparr>events :=
        [TagSet 5 ''grpc.request.size'' (TInt 42),
         Logged Info ''Request size for %s: %d bytes''
           [AStr ''/search.Search/Nearby'', AInt 42],
         Logged Warn ''Response for method %s is not a proto.Message''
           [AStr ''/search.Search/Nearby''],
         TagSet 5 ''grpc.response.size'' (TStr ''unknown'')]\<rparr>)"
  using size_tagging_response_sentinel
    [where ctx = ctx_traced and sp = 5 and req = "ProtoMessage 1" and w = world0
       and i = nearby_info and handler = "reply_handler NilValue None"
       and resp = NilValue
       and ?w2.0 = "world0\<lparr>events :=
          [TagSet 5 ''grpc.request.size'' (TInt 42),
           Logged Info ''Request size for %s: %d bytes''
             [AStr ''/search.Search/Nearby'', AInt 42]]\<rparr>"
       and meth = "''/search.Search/Nearby''" and reply = "NotProto 4" and cc = None
       and invoker = "reply_invoker None" and opts = "[]"]
  by (simp add: example_defs SpanFromContext_def ret_def)

end
